theory Spec2Isabelle
  imports Main "HOL-Library.Word" "HOL-Library.Sublist"
begin

text \<open>
  A todo list kept in a Redux store and written through to the browser's localStorage.
  The store slice exists in two copies: \<^verbatim>\<open>src/store/todoSlice.ts\<close>, which numbers a
  new todo with the length of the list plus one and takes its id from \<^verbatim>\<open>nanoid()\<close>,
  and \<^verbatim>\<open>src/unnamed/part_000\<close>, which renumbers the list after every load, add and
  delete and takes the id from the clock. Both are modelled; the reducers of the second
  copy carry the suffix \<open>_p0\<close>. The component \<^verbatim>\<open>src/components/TodoList.tsx\<close>
  trims and checks what the user typed before it dispatches to the store.
\<close>

section \<open>JavaScript strings\<close>

text \<open>
  A JavaScript string is a sequence of UTF-16 code units. \<open>str\<close> turns an ASCII
  literal into such a sequence, for the examples below.
\<close>

type_synonym jsstring = "16 word list"

definition str :: "string \<Rightarrow> jsstring" where
  "str s = map (\<lambda>c. of_nat (of_char c)) s"

text \<open>
  \<^verbatim>\<open>String.prototype.trim\<close> strips WhiteSpace and LineTerminator code points from
  both ends: TAB, LF, VT, FF, CR, SPACE, NBSP, U+1680, U+2000..U+200A, U+2028, U+2029,
  U+202F, U+205F, U+3000 and U+FEFF. All of them are single code units.
\<close>

definition isWhiteSpace :: "16 word \<Rightarrow> bool" where
  "isWhiteSpace c \<longleftrightarrow>
     c = 0x0009 \<or> c = 0x000A \<or> c = 0x000B \<or> c = 0x000C \<or> c = 0x000D \<or> c = 0x0020 \<or>
     c = 0x00A0 \<or> c = 0x1680 \<or> (0x2000 \<le> c \<and> c \<le> 0x200A) \<or> c = 0x2028 \<or>
     c = 0x2029 \<or> c = 0x202F \<or> c = 0x205F \<or> c = 0x3000 \<or> c = 0xFEFF"

definition trim :: "jsstring \<Rightarrow> jsstring" where
  "trim s = rev (dropWhile isWhiteSpace (rev (dropWhile isWhiteSpace s)))"

text \<open>A string used as a condition is true exactly when it is not empty.\<close>

definition truthy :: "jsstring \<Rightarrow> bool" where
  "truthy s \<longleftrightarrow> s \<noteq> []"

text \<open>
  \<^verbatim>\<open>s.includes(q)\<close>: \<open>q\<close> occurs in \<open>s\<close> as a contiguous run of code units,
  searched from position 0.
\<close>

fun includes' :: "jsstring \<Rightarrow> jsstring \<Rightarrow> bool" where
  "includes' [] q = (q = [])"
| "includes' (c # cs) q = (prefix q (c # cs) \<or> includes' cs q)"

text \<open>
  \<^verbatim>\<open>Number.prototype.toString\<close> on a non-negative integer below \<open>10^21\<close>: its
  decimal digits.
\<close>

fun toString :: "nat \<Rightarrow> jsstring" where
  "toString n =
     (if n < 10 then [0x30 + of_nat n]
      else toString (n div 10) @ [0x30 + of_nat (n mod 10)])"

declare toString.simps [simp del]

section \<open>The data model of \<^verbatim>\<open>todoSlice.ts\<close>\<close>

text \<open>
  \<^verbatim>\<open>interface Todo { id; todoNo; text; description; completed }\<close>. The names
  \<open>id\<close>, \<open>text\<close> and \<open>includes\<close> carry a prime because the plain names are taken.
\<close>

record Todo =
  id' :: jsstring
  todoNo :: int
  text' :: jsstring
  description :: jsstring
  completed :: bool

record TodoState =
  todos :: "Todo list"
  searchQuery :: jsstring

definition initialState :: TodoState where
  "initialState = \<lparr> todos = [], searchQuery = [] \<rparr>"

section \<open>The browser's localStorage and JSON\<close>

text \<open>
  The storage collaborator: whether \<^verbatim>\<open>window\<close> exists at all (it does not during
  server-side rendering), whether \<^verbatim>\<open>getItem\<close> and \<^verbatim>\<open>setItem\<close> throw (storage
  disabled, quota exceeded), and the stored entries.
\<close>

record Storage =
  window_defined :: bool
  getItem_throws :: bool
  setItem_throws :: bool
  entries :: "jsstring \<rightharpoonup> jsstring"

datatype exn = DOMException | SyntaxError | TypeError

definition getItem :: "Storage \<Rightarrow> jsstring \<Rightarrow> exn + jsstring option" where
  "getItem env k = (if getItem_throws env then Inl DOMException else Inr (entries env k))"

definition setItem :: "Storage \<Rightarrow> jsstring \<Rightarrow> jsstring \<Rightarrow> exn + Storage" where
  "setItem env k v =
     (if setItem_throws env then Inl DOMException
      else Inr (env\<lparr>entries := (entries env)(k \<mapsto> v)\<rparr>))"

text \<open>
  What \<^verbatim>\<open>JSON.parse\<close> can return: null, a boolean, a number, a string, an array or
  an object (its properties in their order). Numbers are the integers, as \<open>todoNo\<close>
  is. Own properties of an array other than its elements are not represented; JSON
  cannot express them.
\<close>

datatype jsvalue =
    JNull
  | JBoolean bool
  | JNumber int
  | JString jsstring
  | JArray "jsvalue list"
  | JObject "(jsstring \<times> jsvalue) list"

text \<open>A todo as a value, the way \<^verbatim>\<open>JSON.stringify\<close> lists its properties.\<close>

definition Todo_keys :: "jsstring list" where
  "Todo_keys = [str ''id'', str ''todoNo'', str ''text'', str ''description'', str ''completed'']"

definition of_todo :: "Todo \<Rightarrow> jsvalue" where
  "of_todo t =
     JObject [(str ''id'', JString (id' t)), (str ''todoNo'', JNumber (todoNo t)),
              (str ''text'', JString (text' t)), (str ''description'', JString (description t)),
              (str ''completed'', JBoolean (completed t))]"

definition of_todos :: "Todo list \<Rightarrow> jsvalue" where
  "of_todos ts = JArray (map of_todo ts)"

text \<open>
  \<^verbatim>\<open>loadFromLocalStorage\<close> is annotated \<^verbatim>\<open>Todo[]\<close>, but it returns whatever
  \<^verbatim>\<open>JSON.parse\<close> returned; nothing checks the shape. \<open>as_todos\<close> tells whether a
  value is a list of todos as the store writes them: an array of objects with exactly
  the five properties of a todo, of the right types, in the order above. The state of
  the model holds such lists only; null, an object, a string or an array of anything
  else cannot be held by it.
\<close>

fun as_todo :: "jsvalue \<Rightarrow> Todo option" where
  "as_todo (JObject fs) =
     (if map fst fs = Todo_keys then
        (case map snd fs of
           [JString i, JNumber n, JString t, JString d, JBoolean b] \<Rightarrow>
             Some \<lparr> id' = i, todoNo = n, text' = t, description = d, completed = b \<rparr>
         | _ \<Rightarrow> None)
      else None)"
| "as_todo v = None"

fun as_todos :: "jsvalue \<Rightarrow> Todo list option" where
  "as_todos (JArray vs) = those (map as_todo vs)"
| "as_todos v = None"

text \<open>
  \<^verbatim>\<open>JSON.stringify\<close> and \<^verbatim>\<open>JSON.parse\<close> are built-ins of the language, not code of
  this repository; they are parameters of the model. \<open>parse\<close> returns \<open>None\<close> where
  \<^verbatim>\<open>JSON.parse\<close> throws a SyntaxError.
\<close>

record JSON =
  stringify :: "Todo list \<Rightarrow> jsstring"
  parse :: "jsstring \<Rightarrow> jsvalue option"

definition TODOS_KEY :: jsstring where
  "TODOS_KEY = str ''todos''"

definition loadFromLocalStorage :: "JSON \<Rightarrow> Storage \<Rightarrow> jsvalue" where
  "loadFromLocalStorage J env =
     (if window_defined env then
        (case getItem env TODOS_KEY of
           Inl error \<Rightarrow> JArray []
         | Inr None \<Rightarrow> JArray []
         | Inr (Some savedTodos) \<Rightarrow>
             (if truthy savedTodos then
                (case parse J savedTodos of None \<Rightarrow> JArray [] | Some v \<Rightarrow> v)
              else JArray []))
      else JArray [])"

definition saveToLocalStorage :: "JSON \<Rightarrow> Todo list \<Rightarrow> Storage \<Rightarrow> Storage" where
  "saveToLocalStorage J ts env =
     (if window_defined env then
        (case setItem env TODOS_KEY (stringify J ts) of
           Inl error \<Rightarrow> env
         | Inr env' \<Rightarrow> env')
      else env)"

section \<open>The reducers of \<^verbatim>\<open>src/store/todoSlice.ts\<close>\<close>

text \<open>
  A reducer takes the store state together with the storage and returns both. The
  reducers are written as mutations of an Immer draft; \<open>mutate_found\<close> is the array
  after the object that \<^verbatim>\<open>find\<close> returned (the first match) has been assigned to.

  The state of the model holds a list of todos. \<^verbatim>\<open>initializeTodos\<close> is the one
  reducer that can put something else into \<^verbatim>\<open>state.todos\<close>, or throw; its result is
  an outcome: \<open>Done\<close> with the new state, \<open>Ill_typed v\<close> when \<^verbatim>\<open>state.todos\<close> has
  become the value \<open>v\<close>, which is no such list, \<open>Throws\<close> when an exception left
  the reducer. The model does not follow the store beyond the last two.
\<close>

type_synonym world = "TodoState \<times> Storage"

datatype 'a outcome = Done 'a | Ill_typed jsvalue | Throws exn

fun mutate_found :: "(Todo \<Rightarrow> bool) \<Rightarrow> (Todo \<Rightarrow> Todo) \<Rightarrow> Todo list \<Rightarrow> Todo list" where
  "mutate_found P f [] = []"
| "mutate_found P f (t # ts) = (if P t then f t # ts else t # mutate_found P f ts)"

fun initializeTodos :: "JSON \<Rightarrow> world \<Rightarrow> world outcome" where
  "initializeTodos J (state, env) =
     (let v = loadFromLocalStorage J env
      in case as_todos v of
           Some ts \<Rightarrow> Done (state\<lparr>todos := ts\<rparr>, env)
         | None \<Rightarrow> Ill_typed v)"

text \<open>\<open>nanoid\<close> is the string the call \<^verbatim>\<open>nanoid()\<close> returns in this dispatch.\<close>

fun addTodo :: "JSON \<Rightarrow> jsstring \<Rightarrow> jsstring \<Rightarrow> jsstring \<Rightarrow> world \<Rightarrow> world" where
  "addTodo J nanoid tx descr (state, env) =
     (let newTodo = \<lparr> id' = nanoid, todoNo = int (length (todos state)) + 1,
                       text' = tx, description = descr, completed = False \<rparr>;
          ts = todos state @ [newTodo]
      in (state\<lparr>todos := ts\<rparr>, saveToLocalStorage J ts env))"

fun toggleTodo :: "JSON \<Rightarrow> jsstring \<Rightarrow> world \<Rightarrow> world" where
  "toggleTodo J payload (state, env) =
     (case find (\<lambda>todo. id' todo = payload) (todos state) of
        None \<Rightarrow> (state, env)
      | Some todo \<Rightarrow>
          let ts = mutate_found (\<lambda>todo. id' todo = payload)
                     (\<lambda>todo. todo\<lparr>completed := \<not> completed todo\<rparr>) (todos state)
          in (state\<lparr>todos := ts\<rparr>, saveToLocalStorage J ts env))"

fun deleteTodo :: "JSON \<Rightarrow> jsstring \<Rightarrow> world \<Rightarrow> world" where
  "deleteTodo J payload (state, env) =
     (let ts = filter (\<lambda>todo. id' todo \<noteq> payload) (todos state)
      in (state\<lparr>todos := ts\<rparr>, saveToLocalStorage J ts env))"

fun updateTodoText :: "JSON \<Rightarrow> jsstring \<Rightarrow> jsstring \<Rightarrow> jsstring \<Rightarrow> world \<Rightarrow> world" where
  "updateTodoText J i tx descr (state, env) =
     (case find (\<lambda>todo. id' todo = i) (todos state) of
        None \<Rightarrow> (state, env)
      | Some todo \<Rightarrow>
          let ts = mutate_found (\<lambda>todo. id' todo = i)
                     (\<lambda>todo. todo\<lparr>text' := tx, description := descr\<rparr>) (todos state)
          in (state\<lparr>todos := ts\<rparr>, saveToLocalStorage J ts env))"

fun setSearchQuery :: "jsstring \<Rightarrow> world \<Rightarrow> world" where
  "setSearchQuery payload (state, env) = (state\<lparr>searchQuery := payload\<rparr>, env)"

text \<open>
  The actions of the slice. \<open>AddTodo\<close> carries, besides its payload, what the id
  generator returns while the action is reduced (first argument).
\<close>

datatype 'g action =
    InitializeTodos
  | AddTodo 'g jsstring jsstring
  | ToggleTodo jsstring
  | DeleteTodo jsstring
  | UpdateTodoText jsstring jsstring jsstring
  | SetSearchQuery jsstring

fun reducer :: "JSON \<Rightarrow> jsstring action \<Rightarrow> world \<Rightarrow> world outcome" where
  "reducer J InitializeTodos w = initializeTodos J w"
| "reducer J (AddTodo nanoid tx descr) w = Done (addTodo J nanoid tx descr w)"
| "reducer J (ToggleTodo i) w = Done (toggleTodo J i w)"
| "reducer J (DeleteTodo i) w = Done (deleteTodo J i w)"
| "reducer J (UpdateTodoText i tx descr) w = Done (updateTodoText J i tx descr w)"
| "reducer J (SetSearchQuery q) w = Done (setSearchQuery q w)"

text \<open>A run of actions; it ends at the first outcome that is not \<open>Done\<close>.\<close>

fun dispatch_all :: "JSON \<Rightarrow> jsstring action list \<Rightarrow> world \<Rightarrow> world outcome" where
  "dispatch_all J [] w = Done w"
| "dispatch_all J (a # acts) w =
     (case reducer J a w of
        Done w' \<Rightarrow> dispatch_all J acts w'
      | Ill_typed v \<Rightarrow> Ill_typed v
      | Throws e \<Rightarrow> Throws e)"

section \<open>The second copy of the slice (\<^verbatim>\<open>src/unnamed/part_000\<close>)\<close>

text \<open>
  This copy differs from the first in three reducers: the id of a new todo is
  \<^verbatim>\<open>Date.now().toString()\<close>, and \<^verbatim>\<open>initializeTodos\<close>, \<^verbatim>\<open>addTodo\<close> and
  \<^verbatim>\<open>deleteTodo\<close> renumber the whole list with
  \<^verbatim>\<open>forEach((todo, index) => { todo.todoNo = index + 1; })\<close>. The other reducers and the
  two storage functions are the same text as above. \<open>now\<close> is the clock reading
  \<^verbatim>\<open>Date.now()\<close> returns in this dispatch.
\<close>

definition renumber :: "Todo list \<Rightarrow> Todo list" where
  "renumber ts = map (\<lambda>(index, todo). todo\<lparr>todoNo := int index + 1\<rparr>) (enumerate 0 ts)"

text \<open>
  In \<^verbatim>\<open>initializeTodos\<close> the loop runs over what \<^verbatim>\<open>loadFromLocalStorage\<close>
  returned, before anything is assigned to the state and outside any \<^verbatim>\<open>try\<close>. A
  value that is no array has no \<^verbatim>\<open>forEach\<close>; the assignment \<^verbatim>\<open>todo.todoNo = ...\<close>
  sets or adds the property on an object, and throws a TypeError on null and (the module
  being strict code) on a boolean, a number or a string.
\<close>

fun set_property :: "jsstring \<Rightarrow> jsvalue \<Rightarrow> (jsstring \<times> jsvalue) list \<Rightarrow> (jsstring \<times> jsvalue) list" where
  "set_property k v [] = [(k, v)]"
| "set_property k v (p # ps) = (if fst p = k then (k, v) # ps else p # set_property k v ps)"

fun set_todoNo :: "int \<Rightarrow> jsvalue \<Rightarrow> exn + jsvalue" where
  "set_todoNo n (JObject fs) = Inr (JObject (set_property (str ''todoNo'') (JNumber n) fs))"
| "set_todoNo n (JArray vs) = Inr (JArray vs)"
| "set_todoNo n v = Inl TypeError"

fun forEach_set_todoNo :: "nat \<Rightarrow> jsvalue list \<Rightarrow> exn + jsvalue list" where
  "forEach_set_todoNo index [] = Inr []"
| "forEach_set_todoNo index (todo # rest) =
     (case set_todoNo (int index + 1) todo of
        Inl e \<Rightarrow> Inl e
      | Inr todo' \<Rightarrow>
          (case forEach_set_todoNo (Suc index) rest of
             Inl e \<Rightarrow> Inl e
           | Inr rest' \<Rightarrow> Inr (todo' # rest')))"

definition Math_max :: "int list \<Rightarrow> int" where
  "Math_max ns = fold max (tl ns) (hd ns)"

fun initializeTodos_p0 :: "JSON \<Rightarrow> world \<Rightarrow> world outcome" where
  "initializeTodos_p0 J (state, env) =
     (case loadFromLocalStorage J env of
        JArray loadedTodos \<Rightarrow>
          (case forEach_set_todoNo 0 loadedTodos of
             Inl e \<Rightarrow> Throws e
           | Inr vs \<Rightarrow>
               (case as_todos (JArray vs) of
                  Some ts \<Rightarrow> Done (state\<lparr>todos := ts\<rparr>, env)
                | None \<Rightarrow> Ill_typed (JArray vs)))
      | JNull \<Rightarrow> Throws TypeError
      | JBoolean b \<Rightarrow> Throws TypeError
      | JNumber n \<Rightarrow> Throws TypeError
      | JString s \<Rightarrow> Throws TypeError
      | JObject fs \<Rightarrow> Throws TypeError)"

fun addTodo_p0 :: "JSON \<Rightarrow> nat \<Rightarrow> jsstring \<Rightarrow> jsstring \<Rightarrow> world \<Rightarrow> world" where
  "addTodo_p0 J now tx descr (state, env) =
     (let maxTodoNo = (if length (todos state) > 0 then Math_max (map todoNo (todos state))
                       else 0);
          newTodo = \<lparr> id' = toString now, todoNo = maxTodoNo + 1,
                       text' = tx, description = descr, completed = False \<rparr>;
          ts = renumber (todos state @ [newTodo])
      in (state\<lparr>todos := ts\<rparr>, saveToLocalStorage J ts env))"

fun deleteTodo_p0 :: "JSON \<Rightarrow> jsstring \<Rightarrow> world \<Rightarrow> world" where
  "deleteTodo_p0 J payload (state, env) =
     (let ts = renumber (filter (\<lambda>todo. id' todo \<noteq> payload) (todos state))
      in (state\<lparr>todos := ts\<rparr>, saveToLocalStorage J ts env))"

fun reducer_p0 :: "JSON \<Rightarrow> nat action \<Rightarrow> world \<Rightarrow> world outcome" where
  "reducer_p0 J InitializeTodos w = initializeTodos_p0 J w"
| "reducer_p0 J (AddTodo now tx descr) w = Done (addTodo_p0 J now tx descr w)"
| "reducer_p0 J (ToggleTodo i) w = Done (toggleTodo J i w)"
| "reducer_p0 J (DeleteTodo i) w = Done (deleteTodo_p0 J i w)"
| "reducer_p0 J (UpdateTodoText i tx descr) w = Done (updateTodoText J i tx descr w)"
| "reducer_p0 J (SetSearchQuery q) w = Done (setSearchQuery q w)"

fun dispatch_all_p0 :: "JSON \<Rightarrow> nat action list \<Rightarrow> world \<Rightarrow> world outcome" where
  "dispatch_all_p0 J [] w = Done w"
| "dispatch_all_p0 J (a # acts) w =
     (case reducer_p0 J a w of
        Done w' \<Rightarrow> dispatch_all_p0 J acts w'
      | Ill_typed v \<Rightarrow> Ill_typed v
      | Throws e \<Rightarrow> Throws e)"

section \<open>The component \<^verbatim>\<open>src/components/TodoList.tsx\<close>\<close>

text \<open>
  The component's own state (its four \<^verbatim>\<open>useState\<close> cells) and the handlers that
  dispatch to the store. \<^verbatim>\<open>toLowerCase\<close> is a built-in whose result depends on the
  Unicode case tables; it is a parameter.
\<close>

record Component =
  newTodoText :: jsstring
  newTodoDescription :: jsstring
  editingTodo :: "Todo option"
  isEditModalOpen :: bool

definition filteredTodos :: "(jsstring \<Rightarrow> jsstring) \<Rightarrow> TodoState \<Rightarrow> Todo list" where
  "filteredTodos toLowerCase state =
     filter (\<lambda>todo. includes' (toLowerCase (text' todo)) (toLowerCase (searchQuery state)))
       (todos state)"

fun handleAddTodo :: "JSON \<Rightarrow> jsstring \<Rightarrow> Component \<times> world \<Rightarrow> Component \<times> world" where
  "handleAddTodo J nanoid (c, w) =
     (if truthy (trim (newTodoText c)) then
        (c\<lparr>newTodoText := [], newTodoDescription := []\<rparr>,
         addTodo J nanoid (trim (newTodoText c)) (trim (newTodoDescription c)) w)
      else (c, w))"

fun handleToggleTodo :: "JSON \<Rightarrow> jsstring \<Rightarrow> Component \<times> world \<Rightarrow> Component \<times> world" where
  "handleToggleTodo J i (c, w) = (c, toggleTodo J i w)"

fun handleDeleteTodo :: "JSON \<Rightarrow> jsstring \<Rightarrow> Component \<times> world \<Rightarrow> Component \<times> world" where
  "handleDeleteTodo J i (c, w) = (c, deleteTodo J i w)"

fun handleEditTodo :: "jsstring \<Rightarrow> Component \<times> world \<Rightarrow> Component \<times> world" where
  "handleEditTodo i (c, w) =
     (case find (\<lambda>t. id' t = i) (todos (fst w)) of
        None \<Rightarrow> (c, w)
      | Some todo \<Rightarrow> (c\<lparr>editingTodo := Some todo, isEditModalOpen := True\<rparr>, w))"

fun onTextChange :: "jsstring \<Rightarrow> Component \<times> world \<Rightarrow> Component \<times> world" where
  "onTextChange v (c, w) =
     (c\<lparr>editingTodo := (case editingTodo c of None \<Rightarrow> None
                          | Some prev \<Rightarrow> Some (prev\<lparr>text' := v\<rparr>))\<rparr>, w)"

fun onDescriptionChange :: "jsstring \<Rightarrow> Component \<times> world \<Rightarrow> Component \<times> world" where
  "onDescriptionChange v (c, w) =
     (c\<lparr>editingTodo := (case editingTodo c of None \<Rightarrow> None
                          | Some prev \<Rightarrow> Some (prev\<lparr>description := v\<rparr>))\<rparr>, w)"

fun handleSaveEdit :: "JSON \<Rightarrow> Component \<times> world \<Rightarrow> Component \<times> world" where
  "handleSaveEdit J (c, w) =
     (case editingTodo c of
        None \<Rightarrow> (c, w)
      | Some e \<Rightarrow>
          (if truthy (trim (text' e)) then
             (c\<lparr>isEditModalOpen := False, editingTodo := None\<rparr>,
              updateTodoText J (id' e) (trim (text' e)) (trim (description e)) w)
           else (c, w)))"

fun handleCancelEdit :: "Component \<times> world \<Rightarrow> Component \<times> world" where
  "handleCancelEdit (c, w) = (c\<lparr>isEditModalOpen := False, editingTodo := None\<rparr>, w)"

fun handleSearchChange :: "jsstring \<Rightarrow> Component \<times> world \<Rightarrow> Component \<times> world" where
  "handleSearchChange v (c, w) = (c, setSearchQuery v w)"

section \<open>Properties named in the specification\<close>

text \<open>The display number of every item is its 1-based position in the list.\<close>

definition numbered :: "Todo list \<Rightarrow> bool" where
  "numbered ts \<longleftrightarrow> map todoNo ts = map (\<lambda>k. int k + 1) [0..<length ts]"

text \<open>
  What the theorems on persistence need of \<^verbatim>\<open>JSON\<close>: parsing the serialisation of a
  list of todos gives that list back, as a value, and a serialisation is never the empty
  string (\<^verbatim>\<open>JSON.stringify\<close> of an array starts with a bracket).
\<close>

definition reads_back :: "JSON \<Rightarrow> bool" where
  "reads_back J \<longleftrightarrow>
     (\<forall>ts. parse J (stringify J ts) = Some (of_todos ts) \<and> stringify J ts \<noteq> [])"

text \<open>What is stored under the key is the serialisation of the todos in memory.\<close>

definition written_through :: "JSON \<Rightarrow> world \<Rightarrow> bool" where
  "written_through J w \<longleftrightarrow> entries (snd w) TODOS_KEY = Some (stringify J (todos (fst w)))"


definition in_sync_p0 :: "JSON \<Rightarrow> world \<Rightarrow> bool" where
  "in_sync_p0 J w \<longleftrightarrow>
     window_defined (snd w) \<and> \<not> getItem_throws (snd w) \<and> \<not> setItem_throws (snd w)
     \<and> initializeTodos_p0 J w = Done w"

section \<open>Instances of the parameters, for the examples\<close>

text \<open>
  A codec that stands in for \<^verbatim>\<open>JSON\<close> in the examples: numbers in unary, strings
  with their length in front, one brace before every todo and a bracket at both ends.
  The decoder gets the length of its input as fuel. Like \<^verbatim>\<open>JSON.parse\<close>, it reads the
  text \<^verbatim>\<open>null\<close> as the value null.
\<close>

definition enc_nat :: "nat \<Rightarrow> jsstring" where
  "enc_nat n = replicate n 0x31 @ [0x2C]"

definition enc_str :: "jsstring \<Rightarrow> jsstring" where
  "enc_str s = enc_nat (length s) @ s"

definition enc_int :: "int \<Rightarrow> jsstring" where
  "enc_int i = (if i < 0 then 0x2D else 0x2B) # enc_nat (nat \<bar>i\<bar>)"

definition enc_bool :: "bool \<Rightarrow> jsstring" where
  "enc_bool b = [if b then 0x74 else 0x66]"

definition enc_todo :: "Todo \<Rightarrow> jsstring" where
  "enc_todo t = enc_str (id' t) @ enc_int (todoNo t) @ enc_str (text' t)
                @ enc_str (description t) @ enc_bool (completed t)"

fun enc_todos :: "Todo list \<Rightarrow> jsstring" where
  "enc_todos [] = [0x5D]"
| "enc_todos (t # ts) = 0x7B # enc_todo t @ enc_todos ts"

fun dec_nat :: "jsstring \<Rightarrow> (nat \<times> jsstring) option" where
  "dec_nat [] = None"
| "dec_nat (c # cs) =
     (if c = 0x2C then Some (0, cs)
      else if c = 0x31 then map_option (\<lambda>(n, r). (Suc n, r)) (dec_nat cs)
      else None)"

definition dec_str :: "jsstring \<Rightarrow> (jsstring \<times> jsstring) option" where
  "dec_str s =
     (case dec_nat s of
        None \<Rightarrow> None
      | Some (n, r) \<Rightarrow> if n \<le> length r then Some (take n r, drop n r) else None)"

fun dec_int :: "jsstring \<Rightarrow> (int \<times> jsstring) option" where
  "dec_int [] = None"
| "dec_int (c # cs) =
     (if c = 0x2B then map_option (\<lambda>(n, r). (int n, r)) (dec_nat cs)
      else if c = 0x2D then map_option (\<lambda>(n, r). (- int n, r)) (dec_nat cs)
      else None)"

fun dec_bool :: "jsstring \<Rightarrow> (bool \<times> jsstring) option" where
  "dec_bool [] = None"
| "dec_bool (c # cs) =
     (if c = 0x74 then Some (True, cs) else if c = 0x66 then Some (False, cs) else None)"

definition dec_todo :: "jsstring \<Rightarrow> (Todo \<times> jsstring) option" where
  "dec_todo s =
     Option.bind (dec_str s) (\<lambda>(i, r1).
     Option.bind (dec_int r1) (\<lambda>(n, r2).
     Option.bind (dec_str r2) (\<lambda>(t, r3).
     Option.bind (dec_str r3) (\<lambda>(d, r4).
     Option.bind (dec_bool r4) (\<lambda>(b, r5).
       Some (\<lparr> id' = i, todoNo = n, text' = t, description = d, completed = b \<rparr>, r5))))))"

fun dec_todos :: "nat \<Rightarrow> jsstring \<Rightarrow> Todo list option" where
  "dec_todos 0 s = None"
| "dec_todos (Suc k) [] = None"
| "dec_todos (Suc k) (c # cs) =
     (if c = 0x5D then (if cs = [] then Some [] else None)
      else if c = 0x7B then
        (case dec_todo cs of
           None \<Rightarrow> None
         | Some (t, r) \<Rightarrow> map_option ((#) t) (dec_todos k r))
      else None)"

definition example_JSON :: JSON where
  "example_JSON =
     \<lparr> stringify = (\<lambda>ts. 0x5B # enc_todos ts),
       parse = (\<lambda>s. if s = str ''null'' then Some JNull
                      else case s of [] \<Rightarrow> None
                      | c # cs \<Rightarrow> if c = 0x5B
                                  then map_option of_todos (dec_todos (Suc (length cs)) cs)
                                  else None) \<rparr>"

text \<open>A browser whose storage works and holds nothing yet.\<close>

definition fresh_storage :: Storage where
  "fresh_storage =
     \<lparr> window_defined = True, getItem_throws = False, setItem_throws = False,
       entries = Map.empty \<rparr>"

text \<open>A browser whose storage works and holds the text \<^verbatim>\<open>null\<close> under the key.\<close>

definition null_storage :: Storage where
  "null_storage = fresh_storage\<lparr>entries := [TODOS_KEY \<mapsto> str ''null'']\<rparr>"

text \<open>\<^verbatim>\<open>toLowerCase\<close> as it acts on strings of ASCII characters.\<close>

definition ascii_toLowerCase :: "jsstring \<Rightarrow> jsstring" where
  "ascii_toLowerCase s = map (\<lambda>c. if 0x41 \<le> c \<and> c \<le> 0x5A then c + 0x20 else c) s"

text \<open>The two items of the scenario in the specification.\<close>

definition buy_milk :: Todo where
  "buy_milk = \<lparr> id' = str ''a1'', todoNo = 1, text' = str ''Buy milk'', description = [],
                 completed = False \<rparr>"

definition call_bob :: Todo where
  "call_bob = \<lparr> id' = str ''b2'', todoNo = 2, text' = str ''Call Bob'',
                 description = str ''re: project'', completed = False \<rparr>"

definition two_todos :: TodoState where
  "two_todos = \<lparr> todos = [buy_milk, call_bob], searchQuery = [] \<rparr>"

text \<open>The scenario's two adds, in a fresh browser.\<close>

definition scenario_adds :: world where
  "scenario_adds =
     addTodo example_JSON (str ''b2'') (str ''Call Bob'') (str ''re: project'')
       (addTodo example_JSON (str ''a1'') (str ''Buy milk'') [] (initialState, fresh_storage))"

definition idle :: Component where
  "idle = \<lparr> newTodoText = [], newTodoDescription = [], editingTodo = None,
            isEditModalOpen = False \<rparr>"

section \<open>Auxiliary facts\<close>

subsection \<open>The example codec reads back what it wrote\<close>

lemma dec_nat_enc_nat: "dec_nat (enc_nat n @ r) = Some (n, r)"
  by (induction n) (simp_all add: enc_nat_def)

lemma dec_str_enc_str: "dec_str (enc_str s @ r) = Some (s, r)"
  by (simp add: dec_str_def enc_str_def dec_nat_enc_nat)

lemma dec_int_enc_int: "dec_int (enc_int i @ r) = Some (i, r)"
  by (simp add: enc_int_def dec_nat_enc_nat)

lemma dec_bool_enc_bool: "dec_bool (enc_bool b @ r) = Some (b, r)"
  by (simp add: enc_bool_def)

lemma dec_todo_enc_todo: "dec_todo (enc_todo t @ r) = Some (t, r)"
  by (simp add: dec_todo_def enc_todo_def dec_str_enc_str dec_int_enc_int dec_bool_enc_bool)

lemma dec_todos_enc_todos: "length ts < k \<Longrightarrow> dec_todos k (enc_todos ts) = Some ts"
proof (induction ts arbitrary: k)
  case Nil
  then show ?case by (cases k) simp_all
next
  case (Cons t ts)
  then obtain k' where k: "k = Suc k'" and lt: "length ts < k'"
    by (cases k) auto
  show ?case
    using Cons.IH [OF lt] by (simp add: k dec_todo_enc_todo)
qed

lemma length_enc_todos: "length ts < length (enc_todos ts)"
  by (induction ts) auto

lemma example_JSON_reads_back: "reads_back example_JSON"
  unfolding reads_back_def
proof
  fix ts
  have "length ts < Suc (length (enc_todos ts))"
    using length_enc_todos [of ts] by simp
  then show "parse example_JSON (stringify example_JSON ts) = Some (of_todos ts)
      \<and> stringify example_JSON ts \<noteq> []"
    by (simp add: example_JSON_def dec_todos_enc_todos str_def)
qed

subsection \<open>Values and lists of todos\<close>

lemma as_todo_of_todo [simp]: "as_todo (of_todo t) = Some t"
  by (simp add: of_todo_def Todo_keys_def)

lemma as_todos_of_todos [simp]: "as_todos (of_todos ts) = Some ts"
  by (induction ts) (simp_all add: of_todos_def)

lemma as_todo_SomeD: "as_todo v = Some t \<Longrightarrow> v = of_todo t"
proof (cases v)
  case (JObject fs)
  assume a: "as_todo v = Some t"
  then have keys: "map fst fs = Todo_keys"
    using JObject by (simp split: if_splits)
  then obtain v1 v2 v3 v4 v5 where fs: "fs = [(str ''id'', v1), (str ''todoNo'', v2),
      (str ''text'', v3), (str ''description'', v4), (str ''completed'', v5)]"
    by (auto simp: Todo_keys_def map_eq_Cons_conv)
  show ?thesis
    using a JObject
    by (simp add: fs of_todo_def Todo_keys_def split: jsvalue.splits) auto
qed simp_all

lemma those_map_as_todo_SomeD:
  "those (map as_todo vs) = Some ts \<Longrightarrow> vs = map of_todo ts"
proof (induction vs arbitrary: ts)
  case Nil
  then show ?case by simp
next
  case (Cons v vs)
  then show ?case
    by (auto split: option.splits dest: as_todo_SomeD)
qed

lemma as_todos_SomeD: "as_todos v = Some ts \<Longrightarrow> v = of_todos ts"
  by (cases v) (simp_all add: of_todos_def those_map_as_todo_SomeD)

lemma set_todoNo_of_todo: "set_todoNo n (of_todo t) = Inr (of_todo (t\<lparr>todoNo := n\<rparr>))"
  by (simp add: of_todo_def str_def)

lemma forEach_set_todoNo_of_todos:
  "forEach_set_todoNo k (map of_todo ts)
     = Inr (map of_todo (map (\<lambda>(index, todo). todo\<lparr>todoNo := int index + 1\<rparr>) (enumerate k ts)))"
  by (induction ts arbitrary: k) (simp_all add: set_todoNo_of_todo)

lemma forEach_renumber:
  "forEach_set_todoNo 0 (map of_todo ts) = Inr (map of_todo (renumber ts))"
  by (simp add: forEach_set_todoNo_of_todos renumber_def)


lemma initializeTodos_p0_typed:
  assumes "as_todos (loadFromLocalStorage J env) = Some ts"
  shows "initializeTodos_p0 J (state, env) = Done (state\<lparr>todos := renumber ts\<rparr>, env)"
proof -
  have "loadFromLocalStorage J env = JArray (map of_todo ts)"
    using as_todos_SomeD [OF assms] by (simp add: of_todos_def)
  moreover have "as_todos (JArray (map of_todo (renumber ts))) = Some (renumber ts)"
    using as_todos_of_todos [of "renumber ts"] by (simp only: of_todos_def)
  ultimately show ?thesis
    by (simp add: forEach_renumber del: as_todos.simps)
qed

lemma map_of_set_property: "map_of (set_property k v ps) k = Some v"
  by (induction ps) auto

lemma set_todoNo_as_todo:
  assumes "set_todoNo n v = Inr v'" and "as_todo v' = Some t"
  shows "todoNo t = n"
proof (cases v)
  case (JObject fs)
  then have v': "v' = JObject (set_property (str ''todoNo'') (JNumber n) fs)"
    using assms(1) by simp
  have "v' = of_todo t"
    using assms(2) by (rule as_todo_SomeD)
  then have "map_of (set_property (str ''todoNo'') (JNumber n) fs) (str ''todoNo'')
      = Some (JNumber (todoNo t))"
    using v' by (simp add: of_todo_def str_def)
  then show ?thesis
    by (simp add: map_of_set_property)
next
  case (JArray vs)
  then show ?thesis
    using assms by auto
qed (use assms in simp_all)

lemma forEach_set_todoNo_numbers:
  "forEach_set_todoNo k vs = Inr vs' \<Longrightarrow> those (map as_todo vs') = Some ts
     \<Longrightarrow> map todoNo ts = map (\<lambda>j. int j + 1) [k..<k + length ts]"
proof (induction vs arbitrary: k vs' ts)
  case Nil
  then show ?case by auto
next
  case (Cons v vs)
  from Cons.prems(1) obtain v' rest' where v': "set_todoNo (int k + 1) v = Inr v'"
    and rest': "forEach_set_todoNo (Suc k) vs = Inr rest'" and vs': "vs' = v' # rest'"
    by (auto split: sum.splits)
  from Cons.prems(2) vs' obtain t ts' where t: "as_todo v' = Some t"
    and ts': "those (map as_todo rest') = Some ts'" and ts: "ts = t # ts'"
    by (auto split: option.splits)
  have "todoNo t = int k + 1"
    using v' t by (rule set_todoNo_as_todo)
  moreover have "map todoNo ts' = map (\<lambda>j. int j + 1) [Suc k..<Suc k + length ts']"
    using rest' ts' by (rule Cons.IH)
  moreover have "[k..<k + length ts] = k # [Suc k..<Suc k + length ts']"
    by (subst upt_rec) (simp add: ts)
  ultimately show ?case
    by (simp only: ts list.map)
qed

lemma initializeTodos_p0_numbered:
  "initializeTodos_p0 J (state, env) = Done w' \<Longrightarrow> numbered (todos (fst w'))"
  using forEach_set_todoNo_numbers [of 0]
  by (auto simp: numbered_def split: jsvalue.splits sum.splits option.splits)

subsection \<open>Finding an item and assigning to it\<close>

lemma find_id_None: "find (\<lambda>t. id' t = i) ts = None \<longleftrightarrow> i \<notin> id' ` set ts"
  by (auto simp: find_None_iff)

lemma mutate_found_absent: "\<forall>t \<in> set ts. \<not> P t \<Longrightarrow> mutate_found P f ts = ts"
  by (induction ts) auto

lemma mutate_found_split:
  "\<forall>t \<in> set pre. \<not> P t \<Longrightarrow> P t \<Longrightarrow> mutate_found P f (pre @ t # post) = pre @ f t # post"
  by (induction pre) auto

lemma length_mutate_found [simp]: "length (mutate_found P f ts) = length ts"
  by (induction ts) auto


lemma map_todoNo_mutate_found:
  "(\<And>t. todoNo (f t) = todoNo t) \<Longrightarrow> map todoNo (mutate_found P f ts) = map todoNo ts"
  by (induction ts) auto

lemma mutate_found_twice:
  "(\<And>t. P (f t) = P t) \<Longrightarrow>
   mutate_found P g (mutate_found P f ts) = mutate_found P (\<lambda>t. g (f t)) ts"
  by (induction ts) auto

lemma mutate_found_ident: "(\<And>t. f t = t) \<Longrightarrow> mutate_found P f ts = ts"
  by (induction ts) auto

lemma find_mutate_found_None:
  "(\<And>t. P (f t) = P t) \<Longrightarrow> find P (mutate_found P f ts) = None \<longleftrightarrow> find P ts = None"
  by (induction ts) auto

lemma list_all2_mutate_found:
  "list_all2 (\<lambda>t t'. t' = t \<or> (P t \<and> t' = f t)) ts (mutate_found P f ts)"
  by (induction ts) (auto simp: list_all2_same)

section \<open>Toggling\<close>

text \<open>
  Claim C7. \<open>toggleTodo\<close> leaves state and storage as they are when no item has the
  id. When an item has it, the first such item gets its \<open>completed\<close> flag negated
  and the list is saved. Toggling the same id twice gives the state back, and with it
  the flag of that item.
\<close>

theorem toggleTodo_flips_and_is_involution:
  "(payload \<notin> id' ` set (todos state) \<longrightarrow> toggleTodo J payload (state, env) = (state, env))
   \<and> (todos state = pre @ t # post \<and> payload \<notin> id' ` set pre \<and> id' t = payload \<longrightarrow>
        toggleTodo J payload (state, env) =
          (state\<lparr>todos := pre @ t\<lparr>completed := \<not> completed t\<rparr> # post\<rparr>,
           saveToLocalStorage J (pre @ t\<lparr>completed := \<not> completed t\<rparr> # post) env))
   \<and> fst (toggleTodo J payload (toggleTodo J payload (state, env))) = state"
proof (intro conjI impI)
  assume "payload \<notin> id' ` set (todos state)"
  then have "find (\<lambda>todo. id' todo = payload) (todos state) = None"
    by (simp add: find_id_None)
  then show "toggleTodo J payload (state, env) = (state, env)"
    by simp
next
  assume h: "todos state = pre @ t # post \<and> payload \<notin> id' ` set pre \<and> id' t = payload"
  then have absent: "\<forall>x \<in> set pre. \<not> id' x = payload" and here: "id' t = payload"
    by (auto simp: image_iff)
  have "payload \<in> id' ` set (todos state)"
    using h by force
  then obtain x where "find (\<lambda>todo. id' todo = payload) (todos state) = Some x"
    using find_id_None [of payload "todos state"] by (cases "find (\<lambda>todo. id' todo = payload) (todos state)") auto
  moreover have "mutate_found (\<lambda>todo. id' todo = payload)
      (\<lambda>todo. todo\<lparr>completed := \<not> completed todo\<rparr>) (todos state)
      = pre @ t\<lparr>completed := \<not> completed t\<rparr> # post"
    using h mutate_found_split [OF absent here] by simp
  ultimately show "toggleTodo J payload (state, env) =
          (state\<lparr>todos := pre @ t\<lparr>completed := \<not> completed t\<rparr> # post\<rparr>,
           saveToLocalStorage J (pre @ t\<lparr>completed := \<not> completed t\<rparr> # post) env)"
    by (simp add: Let_def)
next
  let ?P = "\<lambda>todo. id' todo = payload"
  let ?f = "\<lambda>todo::Todo. todo\<lparr>completed := \<not> completed todo\<rparr>"
  show "fst (toggleTodo J payload (toggleTodo J payload (state, env))) = state"
  proof (cases "find ?P (todos state)")
    case None
    then show ?thesis by simp
  next
    case (Some x)
    have again: "find ?P (mutate_found ?P ?f (todos state)) \<noteq> None"
      using Some find_mutate_found_None [of ?P ?f "todos state"] by simp
    have "mutate_found ?P ?f (mutate_found ?P ?f (todos state)) = todos state"
      by (simp add: mutate_found_twice mutate_found_ident)
    with Some again show ?thesis
      by (auto simp: Let_def split: option.splits)
  qed
qed

text \<open>The theorem at the scenario's two items: an unknown id, then the id of the second.\<close>

theorem toggleTodo_flips_and_is_involution_witness:
  "str ''zz'' \<notin> id' ` set (todos two_todos)
   \<and> toggleTodo example_JSON (str ''zz'') (two_todos, fresh_storage) = (two_todos, fresh_storage)
   \<and> (todos two_todos = [buy_milk] @ call_bob # [] \<and> str ''b2'' \<notin> id' ` set [buy_milk]
        \<and> id' call_bob = str ''b2'')
   \<and> toggleTodo example_JSON (str ''b2'') (two_todos, fresh_storage) =
        (two_todos\<lparr>todos := [buy_milk] @ call_bob\<lparr>completed := \<not> completed call_bob\<rparr> # []\<rparr>,
         saveToLocalStorage example_JSON
           ([buy_milk] @ call_bob\<lparr>completed := \<not> completed call_bob\<rparr> # []) fresh_storage)"
proof -
  have absent: "str ''zz'' \<notin> id' ` set (todos two_todos)"
    by (simp add: two_todos_def buy_milk_def call_bob_def str_def)
  have present: "todos two_todos = [buy_milk] @ call_bob # [] \<and> str ''b2'' \<notin> id' ` set [buy_milk]
        \<and> id' call_bob = str ''b2''"
    by (simp add: two_todos_def buy_milk_def call_bob_def str_def)
  show ?thesis
    using absent present
      toggleTodo_flips_and_is_involution [where payload = "str ''zz''" and state = two_todos
        and pre = "[]" and t = buy_milk and post = "[]"
        and J = example_JSON and env = fresh_storage]
      toggleTodo_flips_and_is_involution [where payload = "str ''b2''" and state = two_todos
        and pre = "[buy_milk]" and t = call_bob and post = "[]"
        and J = example_JSON and env = fresh_storage]
    by blast
qed

section \<open>What toggling and editing leave alone\<close>

text \<open>
  Claim C10. After \<open>toggleTodo\<close> the list has the same length and order, and every
  item is either the item it was or an item with the given id whose \<open>completed\<close>
  flag alone differs; after \<open>updateTodoText\<close> likewise with \<open>text\<close> and
  \<open>description\<close> alone. \<open>searchQuery\<close> is untouched by both.
\<close>

theorem toggle_and_update_frame:
  "list_all2 (\<lambda>t t'. t' = t \<or> (id' t = i \<and> t' = t\<lparr>completed := \<not> completed t\<rparr>))
     (todos state) (todos (fst (toggleTodo J i (state, env))))
   \<and> searchQuery (fst (toggleTodo J i (state, env))) = searchQuery state
   \<and> list_all2 (\<lambda>t t'. t' = t \<or> (id' t = i \<and> t' = t\<lparr>text' := tx, description := descr\<rparr>))
     (todos state) (todos (fst (updateTodoText J i tx descr (state, env))))
   \<and> searchQuery (fst (updateTodoText J i tx descr (state, env))) = searchQuery state"
proof -
  have refl: "list_all2 (\<lambda>t t'. t' = t \<or> Q t t') ts ts" for Q and ts :: "Todo list"
    by (simp add: list_all2_same)
  show ?thesis
    using list_all2_mutate_found [of "\<lambda>t. id' t = i" _ "todos state"]
    by (auto simp: Let_def refl split: option.splits)
qed

section \<open>Deleting\<close>

text \<open>
  Claim C8. \<open>deleteTodo\<close> keeps exactly the items whose id differs from the given
  one, in their order; no item with that id remains, and the list gets shorter when
  there was one. When no item has the id the state is unchanged. Deleting the same id
  a second time changes neither state nor storage.
\<close>

theorem deleteTodo_removes_and_is_idempotent:
  "todos (fst (deleteTodo J i (state, env))) = filter (\<lambda>t. id' t \<noteq> i) (todos state)
   \<and> i \<notin> id' ` set (todos (fst (deleteTodo J i (state, env))))
   \<and> (i \<in> id' ` set (todos state) \<longrightarrow>
        length (todos (fst (deleteTodo J i (state, env)))) < length (todos state))
   \<and> (i \<notin> id' ` set (todos state) \<longrightarrow> fst (deleteTodo J i (state, env)) = state)
   \<and> deleteTodo J i (deleteTodo J i (state, env)) = deleteTodo J i (state, env)"
proof (intro conjI impI)
  show "todos (fst (deleteTodo J i (state, env))) = filter (\<lambda>t. id' t \<noteq> i) (todos state)"
    by (simp add: Let_def)
  show "i \<notin> id' ` set (todos (fst (deleteTodo J i (state, env))))"
    by (auto simp: Let_def)
next
  assume "i \<in> id' ` set (todos state)"
  then obtain t where "t \<in> set (todos state)" and "\<not> id' t \<noteq> i"
    by auto
  then have "length (filter (\<lambda>t. id' t \<noteq> i) (todos state)) < length (todos state)"
    by (rule length_filter_less)
  then show "length (todos (fst (deleteTodo J i (state, env)))) < length (todos state)"
    by (simp add: Let_def)
next
  assume "i \<notin> id' ` set (todos state)"
  then have "filter (\<lambda>t. id' t \<noteq> i) (todos state) = todos state"
    by (auto simp: filter_id_conv)
  then show "fst (deleteTodo J i (state, env)) = state"
    by (simp add: Let_def)
next
  show "deleteTodo J i (deleteTodo J i (state, env)) = deleteTodo J i (state, env)"
    by (simp add: Let_def saveToLocalStorage_def setItem_def)
qed

text \<open>The theorem at the scenario's two items: the id of the first, then an unknown id.\<close>

theorem deleteTodo_removes_and_is_idempotent_witness:
  "str ''a1'' \<in> id' ` set (todos two_todos)
   \<and> length (todos (fst (deleteTodo example_JSON (str ''a1'') (two_todos, fresh_storage))))
       < length (todos two_todos)
   \<and> str ''zz'' \<notin> id' ` set (todos two_todos)
   \<and> fst (deleteTodo example_JSON (str ''zz'') (two_todos, fresh_storage)) = two_todos"
proof -
  have present: "str ''a1'' \<in> id' ` set (todos two_todos)"
    by (simp add: two_todos_def buy_milk_def call_bob_def str_def)
  have absent: "str ''zz'' \<notin> id' ` set (todos two_todos)"
    by (simp add: two_todos_def buy_milk_def call_bob_def str_def)
  show ?thesis
    using present absent
      deleteTodo_removes_and_is_idempotent [where i = "str ''a1''" and state = two_todos
        and J = example_JSON and env = fresh_storage]
      deleteTodo_removes_and_is_idempotent [where i = "str ''zz''" and state = two_todos
        and J = example_JSON and env = fresh_storage]
    by blast
qed

section \<open>Adding through the form\<close>

lemma trim_empty_iff: "trim s = [] \<longleftrightarrow> (\<forall>c \<in> set s. isWhiteSpace c)"
proof
  assume "trim s = []"
  then have all: "\<forall>c \<in> set (dropWhile isWhiteSpace s). isWhiteSpace c"
    by (simp add: trim_def dropWhile_eq_Nil_conv)
  have "dropWhile isWhiteSpace s = []"
  proof (cases "dropWhile isWhiteSpace s")
    case Nil
    then show ?thesis .
  next
    case (Cons c cs)
    then have "\<not> isWhiteSpace c"
      using hd_dropWhile [of isWhiteSpace s] by simp
    with all Cons show ?thesis by simp
  qed
  then show "\<forall>c \<in> set s. isWhiteSpace c"
    by (simp add: dropWhile_eq_Nil_conv)
next
  assume "\<forall>c \<in> set s. isWhiteSpace c"
  then show "trim s = []"
    by (auto simp: trim_def dest: set_dropWhileD)
qed

text \<open>
  Claim C2. The reducer \<open>addTodo\<close> appends whatever it is given; the check on the
  title is made by \<open>handleAddTodo\<close>, the only place that dispatches it. When the
  title typed into the form is empty after trimming, \<open>handleAddTodo\<close> changes
  nothing: not the form, not the store, not the storage, whatever the description. In
  particular an empty title leaves the number of items as it was. (A title that is not
  blank adds one item.)
\<close>

theorem handleAddTodo_blank_title:
  "(trim (newTodoText c) = [] \<longrightarrow> handleAddTodo J nanoid (c, w) = (c, w))
   \<and> (newTodoText c = [] \<longrightarrow>
        length (todos (fst (snd (handleAddTodo J nanoid (c, w))))) = length (todos (fst w)))
   \<and> (trim (newTodoText c) \<noteq> [] \<longrightarrow>
        length (todos (fst (snd (handleAddTodo J nanoid (c, w))))) = length (todos (fst w)) + 1)"
proof (intro conjI impI)
  assume "trim (newTodoText c) = []"
  then show "handleAddTodo J nanoid (c, w) = (c, w)"
    by (simp add: truthy_def)
next
  assume "newTodoText c = []"
  then have "trim (newTodoText c) = []"
    by (simp add: trim_def)
  then show "length (todos (fst (snd (handleAddTodo J nanoid (c, w))))) = length (todos (fst w))"
    by (simp add: truthy_def)
next
  assume "trim (newTodoText c) \<noteq> []"
  then show "length (todos (fst (snd (handleAddTodo J nanoid (c, w))))) = length (todos (fst w)) + 1"
    by (cases w) (simp add: truthy_def Let_def)
qed

text \<open>The theorem at a title of three spaces, at an empty title and at a real title.\<close>

theorem handleAddTodo_blank_title_witness:
  "trim (newTodoText (idle\<lparr>newTodoText := str ''   '', newTodoDescription := str ''x''\<rparr>)) = []
   \<and> handleAddTodo example_JSON (str ''c3'')
        (idle\<lparr>newTodoText := str ''   '', newTodoDescription := str ''x''\<rparr>,
         (two_todos, fresh_storage))
       = (idle\<lparr>newTodoText := str ''   '', newTodoDescription := str ''x''\<rparr>,
          (two_todos, fresh_storage))
   \<and> newTodoText (idle\<lparr>newTodoDescription := str ''x''\<rparr>) = []
   \<and> length (todos (fst (snd (handleAddTodo example_JSON (str ''c3'')
        (idle\<lparr>newTodoDescription := str ''x''\<rparr>, (two_todos, fresh_storage))))))
       = length (todos (fst (two_todos, fresh_storage)))
   \<and> trim (newTodoText (idle\<lparr>newTodoText := str '' Pay rent ''\<rparr>)) \<noteq> []
   \<and> length (todos (fst (snd (handleAddTodo example_JSON (str ''c3'')
        (idle\<lparr>newTodoText := str '' Pay rent ''\<rparr>, (two_todos, fresh_storage))))))
       = length (todos (fst (two_todos, fresh_storage))) + 1"
proof -
  have blank: "trim (newTodoText (idle\<lparr>newTodoText := str ''   '', newTodoDescription := str ''x''\<rparr>)) = []"
    by (simp add: idle_def str_def trim_def isWhiteSpace_def)
  have empty: "newTodoText (idle\<lparr>newTodoDescription := str ''x''\<rparr>) = []"
    by (simp add: idle_def)
  have titled: "trim (newTodoText (idle\<lparr>newTodoText := str '' Pay rent ''\<rparr>)) \<noteq> []"
    by (simp add: idle_def str_def trim_def isWhiteSpace_def)
  show ?thesis
    using blank empty titled
      handleAddTodo_blank_title [where c = "idle\<lparr>newTodoText := str ''   '', newTodoDescription := str ''x''\<rparr>"
        and J = example_JSON and nanoid = "str ''c3''" and w = "(two_todos, fresh_storage)"]
      handleAddTodo_blank_title [where c = "idle\<lparr>newTodoDescription := str ''x''\<rparr>"
        and J = example_JSON and nanoid = "str ''c3''" and w = "(two_todos, fresh_storage)"]
      handleAddTodo_blank_title [where c = "idle\<lparr>newTodoText := str '' Pay rent ''\<rparr>"
        and J = example_JSON and nanoid = "str ''c3''" and w = "(two_todos, fresh_storage)"]
    by blast
qed

text \<open>The reducer on its own, given an empty title: it appends.\<close>

lemma addTodo_itself_accepts_empty_title:
  "length (todos (fst (addTodo J nanoid [] descr (state, env)))) = length (todos state) + 1"
  by (simp add: Let_def)

section \<open>Editing\<close>

lemma find_id_Some_split:
  assumes "ts = pre @ t # post" and "i \<notin> id' ` set pre" and "id' t = i"
  shows "find (\<lambda>x. id' x = i) ts = Some t"
  using assms by (induction pre arbitrary: ts) auto

text \<open>
  Claim C4 says that an update trims both inputs and replaces title and description
  unconditionally, even when the trimmed title is empty. Neither layer does that.
  \<open>handleSaveEdit\<close> trims, but does nothing when the trimmed title is empty: editing
  the first item's title to two spaces leaves the item as it was. \<open>updateTodoText\<close>
  replaces unconditionally, but does not trim: the title \<open>'' Buy bread''\<close> is stored with
  its leading space.
\<close>

theorem update_trims_unconditionally_counterexample:
  "handleSaveEdit example_JSON
      (idle\<lparr>editingTodo := Some (buy_milk\<lparr>text' := str ''  ''\<rparr>), isEditModalOpen := True\<rparr>,
       (two_todos, fresh_storage))
     = (idle\<lparr>editingTodo := Some (buy_milk\<lparr>text' := str ''  ''\<rparr>), isEditModalOpen := True\<rparr>,
        (two_todos, fresh_storage))
   \<and> text' (hd (todos two_todos)) \<noteq> trim (str ''  '')
   \<and> text' (hd (todos (fst (updateTodoText example_JSON (str ''a1'') (str '' Buy bread'') []
        (two_todos, fresh_storage))))) \<noteq> trim (str '' Buy bread'')"
  by (simp add: idle_def two_todos_def buy_milk_def call_bob_def str_def trim_def
      isWhiteSpace_def truthy_def Let_def)

text \<open>
  Claim C4 as amended. \<open>handleSaveEdit\<close> changes nothing when no edit is open or when
  the edited title is empty after trimming; otherwise it closes the dialog and dispatches
  \<open>updateTodoText\<close> with the id, the trimmed title and the trimmed description.
  \<open>updateTodoText\<close> changes nothing when no item has the id; otherwise it assigns the
  title and the description it was given to the first item with that id and saves the
  list.
\<close>

theorem handleSaveEdit_and_updateTodoText:
  "(editingTodo c = None \<longrightarrow> handleSaveEdit J (c, w) = (c, w))
   \<and> (editingTodo c = Some e \<and> trim (text' e) = [] \<longrightarrow> handleSaveEdit J (c, w) = (c, w))
   \<and> (editingTodo c = Some e \<and> trim (text' e) \<noteq> [] \<longrightarrow>
        handleSaveEdit J (c, w) =
          (c\<lparr>isEditModalOpen := False, editingTodo := None\<rparr>,
           updateTodoText J (id' e) (trim (text' e)) (trim (description e)) w))
   \<and> (i \<notin> id' ` set (todos state) \<longrightarrow> updateTodoText J i tx descr (state, env) = (state, env))
   \<and> (todos state = pre @ t # post \<and> i \<notin> id' ` set pre \<and> id' t = i \<longrightarrow>
        updateTodoText J i tx descr (state, env) =
          (state\<lparr>todos := pre @ t\<lparr>text' := tx, description := descr\<rparr> # post\<rparr>,
           saveToLocalStorage J (pre @ t\<lparr>text' := tx, description := descr\<rparr> # post) env))"
proof (intro conjI impI)
  assume "editingTodo c = None"
  then show "handleSaveEdit J (c, w) = (c, w)"
    by simp
next
  assume "editingTodo c = Some e \<and> trim (text' e) = []"
  then show "handleSaveEdit J (c, w) = (c, w)"
    by (simp add: truthy_def)
next
  assume "editingTodo c = Some e \<and> trim (text' e) \<noteq> []"
  then show "handleSaveEdit J (c, w) =
          (c\<lparr>isEditModalOpen := False, editingTodo := None\<rparr>,
           updateTodoText J (id' e) (trim (text' e)) (trim (description e)) w)"
    by (simp add: truthy_def)
next
  assume "i \<notin> id' ` set (todos state)"
  then have "find (\<lambda>todo. id' todo = i) (todos state) = None"
    by (simp add: find_id_None)
  then show "updateTodoText J i tx descr (state, env) = (state, env)"
    by simp
next
  assume h: "todos state = pre @ t # post \<and> i \<notin> id' ` set pre \<and> id' t = i"
  then have absent: "\<forall>x \<in> set pre. \<not> id' x = i" and here: "id' t = i"
    by (auto simp: image_iff)
  have found: "find (\<lambda>todo. id' todo = i) (todos state) = Some t"
    using h by (simp add: find_id_Some_split)
  have "mutate_found (\<lambda>todo. id' todo = i)
      (\<lambda>todo. todo\<lparr>text' := tx, description := descr\<rparr>) (todos state)
      = pre @ t\<lparr>text' := tx, description := descr\<rparr> # post"
    using h mutate_found_split [OF absent here] by simp
  with found show "updateTodoText J i tx descr (state, env) =
          (state\<lparr>todos := pre @ t\<lparr>text' := tx, description := descr\<rparr> # post\<rparr>,
           saveToLocalStorage J (pre @ t\<lparr>text' := tx, description := descr\<rparr> # post) env)"
    by (simp add: Let_def)
qed

text \<open>
  The theorem at the scenario's two items: no edit open, a blank title, a title with a
  leading space, an unknown id and the id of the second item.
\<close>

theorem handleSaveEdit_and_updateTodoText_witness:
  "editingTodo idle = None
   \<and> handleSaveEdit example_JSON (idle, (two_todos, fresh_storage))
       = (idle, (two_todos, fresh_storage))
   \<and> (editingTodo (idle\<lparr>editingTodo := Some (buy_milk\<lparr>text' := str ''  ''\<rparr>)\<rparr>)
         = Some (buy_milk\<lparr>text' := str ''  ''\<rparr>)
       \<and> trim (text' (buy_milk\<lparr>text' := str ''  ''\<rparr>)) = [])
   \<and> handleSaveEdit example_JSON
        (idle\<lparr>editingTodo := Some (buy_milk\<lparr>text' := str ''  ''\<rparr>)\<rparr>, (two_todos, fresh_storage))
       = (idle\<lparr>editingTodo := Some (buy_milk\<lparr>text' := str ''  ''\<rparr>)\<rparr>, (two_todos, fresh_storage))
   \<and> (editingTodo (idle\<lparr>editingTodo := Some (buy_milk\<lparr>text' := str '' Buy bread''\<rparr>)\<rparr>)
         = Some (buy_milk\<lparr>text' := str '' Buy bread''\<rparr>)
       \<and> trim (text' (buy_milk\<lparr>text' := str '' Buy bread''\<rparr>)) \<noteq> [])
   \<and> snd (handleSaveEdit example_JSON
        (idle\<lparr>editingTodo := Some (buy_milk\<lparr>text' := str '' Buy bread''\<rparr>)\<rparr>,
         (two_todos, fresh_storage)))
       = updateTodoText example_JSON (id' (buy_milk\<lparr>text' := str '' Buy bread''\<rparr>))
           (trim (text' (buy_milk\<lparr>text' := str '' Buy bread''\<rparr>)))
           (trim (description (buy_milk\<lparr>text' := str '' Buy bread''\<rparr>)))
           (two_todos, fresh_storage)
   \<and> str ''zz'' \<notin> id' ` set (todos two_todos)
   \<and> updateTodoText example_JSON (str ''zz'') (str ''t'') (str ''d'') (two_todos, fresh_storage)
       = (two_todos, fresh_storage)
   \<and> (todos two_todos = [buy_milk] @ call_bob # [] \<and> str ''b2'' \<notin> id' ` set [buy_milk]
       \<and> id' call_bob = str ''b2'')
   \<and> todos (fst (updateTodoText example_JSON (str ''b2'') (str ''t'') (str ''d'')
        (two_todos, fresh_storage)))
       = [buy_milk] @ call_bob\<lparr>text' := str ''t'', description := str ''d''\<rparr> # []"
proof -
  have none: "editingTodo idle = None"
    by (simp add: idle_def)
  have blank: "editingTodo (idle\<lparr>editingTodo := Some (buy_milk\<lparr>text' := str ''  ''\<rparr>)\<rparr>)
         = Some (buy_milk\<lparr>text' := str ''  ''\<rparr>)
       \<and> trim (text' (buy_milk\<lparr>text' := str ''  ''\<rparr>)) = []"
    by (simp add: str_def trim_def isWhiteSpace_def)
  have titled: "editingTodo (idle\<lparr>editingTodo := Some (buy_milk\<lparr>text' := str '' Buy bread''\<rparr>)\<rparr>)
         = Some (buy_milk\<lparr>text' := str '' Buy bread''\<rparr>)
       \<and> trim (text' (buy_milk\<lparr>text' := str '' Buy bread''\<rparr>)) \<noteq> []"
    by (simp add: str_def trim_def isWhiteSpace_def)
  have absent: "str ''zz'' \<notin> id' ` set (todos two_todos)"
    by (simp add: two_todos_def buy_milk_def call_bob_def str_def)
  have present: "todos two_todos = [buy_milk] @ call_bob # [] \<and> str ''b2'' \<notin> id' ` set [buy_milk]
       \<and> id' call_bob = str ''b2''"
    by (simp add: two_todos_def buy_milk_def call_bob_def str_def)
  note T = handleSaveEdit_and_updateTodoText [where J = example_JSON
      and w = "(two_todos, fresh_storage)" and state = two_todos and env = fresh_storage
      and tx = "str ''t''" and descr = "str ''d''"]
  have 1: "handleSaveEdit example_JSON (idle, (two_todos, fresh_storage))
       = (idle, (two_todos, fresh_storage))"
    using none T [where c = idle and e = buy_milk and i = "str ''zz''" and pre = "[]"
        and t = buy_milk and post = "[]"] by blast
  have 2: "handleSaveEdit example_JSON
        (idle\<lparr>editingTodo := Some (buy_milk\<lparr>text' := str ''  ''\<rparr>)\<rparr>, (two_todos, fresh_storage))
       = (idle\<lparr>editingTodo := Some (buy_milk\<lparr>text' := str ''  ''\<rparr>)\<rparr>, (two_todos, fresh_storage))"
    using blank T [where c = "idle\<lparr>editingTodo := Some (buy_milk\<lparr>text' := str ''  ''\<rparr>)\<rparr>"
        and e = "buy_milk\<lparr>text' := str ''  ''\<rparr>" and i = "str ''zz''" and pre = "[]"
        and t = buy_milk and post = "[]"] by blast
  have 3: "snd (handleSaveEdit example_JSON
        (idle\<lparr>editingTodo := Some (buy_milk\<lparr>text' := str '' Buy bread''\<rparr>)\<rparr>,
         (two_todos, fresh_storage)))
       = updateTodoText example_JSON (id' (buy_milk\<lparr>text' := str '' Buy bread''\<rparr>))
           (trim (text' (buy_milk\<lparr>text' := str '' Buy bread''\<rparr>)))
           (trim (description (buy_milk\<lparr>text' := str '' Buy bread''\<rparr>)))
           (two_todos, fresh_storage)"
    using titled T [where c = "idle\<lparr>editingTodo := Some (buy_milk\<lparr>text' := str '' Buy bread''\<rparr>)\<rparr>"
        and e = "buy_milk\<lparr>text' := str '' Buy bread''\<rparr>" and i = "str ''zz''" and pre = "[]"
        and t = buy_milk and post = "[]"] by simp
  have 4: "updateTodoText example_JSON (str ''zz'') (str ''t'') (str ''d'') (two_todos, fresh_storage)
       = (two_todos, fresh_storage)"
    using absent T [where c = idle and e = buy_milk and i = "str ''zz''" and pre = "[]"
        and t = buy_milk and post = "[]"] by blast
  have 5: "todos (fst (updateTodoText example_JSON (str ''b2'') (str ''t'') (str ''d'')
        (two_todos, fresh_storage)))
       = [buy_milk] @ call_bob\<lparr>text' := str ''t'', description := str ''d''\<rparr> # []"
    using present T [where c = idle and e = buy_milk and i = "str ''b2''" and pre = "[buy_milk]"
        and t = call_bob and post = "[]"] by simp
  show ?thesis
    using none blank titled absent present 1 2 3 4 5 by blast
qed

section \<open>The filtered view\<close>

lemma includes'_iff_sublist: "includes' s q \<longleftrightarrow> sublist q s"
  by (induction s) (simp_all add: sublist_Cons_right)

text \<open>
  Claim C9. \<open>filteredTodos\<close> is a function of the state and returns a list, so it
  changes nothing. It keeps, in their order, exactly the items whose lower-cased title
  contains the lower-cased \<open>searchQuery\<close> as a contiguous run, so it is a
  subsequence of the items. With an empty query it returns all items (the lower case of
  the empty string being the empty string), and when no title contains the query it
  returns the empty list.
\<close>

theorem filteredTodos_case_insensitive_subsequence:
  "filteredTodos lc state =
     filter (\<lambda>t. \<exists>pre post. lc (text' t) = pre @ lc (searchQuery state) @ post) (todos state)
   \<and> subseq (filteredTodos lc state) (todos state)
   \<and> (lc [] = [] \<and> searchQuery state = [] \<longrightarrow> filteredTodos lc state = todos state)
   \<and> ((\<forall>t \<in> set (todos state). \<not> sublist (lc (searchQuery state)) (lc (text' t))) \<longrightarrow>
        filteredTodos lc state = [])"
proof (intro conjI impI)
  show "filteredTodos lc state =
     filter (\<lambda>t. \<exists>pre post. lc (text' t) = pre @ lc (searchQuery state) @ post) (todos state)"
    by (simp add: filteredTodos_def includes'_iff_sublist sublist_def)
  show "subseq (filteredTodos lc state) (todos state)"
    by (simp add: filteredTodos_def)
next
  assume "lc [] = [] \<and> searchQuery state = []"
  then show "filteredTodos lc state = todos state"
    by (simp add: filteredTodos_def includes'_iff_sublist)
next
  assume "\<forall>t \<in> set (todos state). \<not> sublist (lc (searchQuery state)) (lc (text' t))"
  then show "filteredTodos lc state = []"
    by (simp add: filteredTodos_def includes'_iff_sublist filter_empty_conv)
qed

text \<open>The theorem at the scenario's two items, with an empty query and with \<open>Tax\<close>.\<close>

theorem filteredTodos_case_insensitive_subsequence_witness:
  "(ascii_toLowerCase [] = [] \<and> searchQuery two_todos = [])
   \<and> filteredTodos ascii_toLowerCase two_todos = todos two_todos
   \<and> \<not> sublist (ascii_toLowerCase (str ''Tax'')) (ascii_toLowerCase (text' buy_milk))
   \<and> \<not> sublist (ascii_toLowerCase (str ''Tax'')) (ascii_toLowerCase (text' call_bob))
   \<and> filteredTodos ascii_toLowerCase (two_todos\<lparr>searchQuery := str ''Tax''\<rparr>) = []"
proof -
  have empty: "ascii_toLowerCase [] = [] \<and> searchQuery two_todos = []"
    by (simp add: ascii_toLowerCase_def two_todos_def)
  have no_milk: "\<not> sublist (ascii_toLowerCase (str ''Tax'')) (ascii_toLowerCase (text' buy_milk))"
    unfolding includes'_iff_sublist [symmetric]
    by (simp add: buy_milk_def str_def ascii_toLowerCase_def)
  have no_bob: "\<not> sublist (ascii_toLowerCase (str ''Tax'')) (ascii_toLowerCase (text' call_bob))"
    unfolding includes'_iff_sublist [symmetric]
    by (simp add: call_bob_def str_def ascii_toLowerCase_def)
  have nomatch: "\<forall>t \<in> set (todos (two_todos\<lparr>searchQuery := str ''Tax''\<rparr>)).
         \<not> sublist (ascii_toLowerCase (searchQuery (two_todos\<lparr>searchQuery := str ''Tax''\<rparr>)))
             (ascii_toLowerCase (text' t))"
    using no_milk no_bob by (simp add: two_todos_def)
  show ?thesis
    using empty no_milk no_bob nomatch
      filteredTodos_case_insensitive_subsequence [where lc = ascii_toLowerCase
        and state = two_todos]
      filteredTodos_case_insensitive_subsequence [where lc = ascii_toLowerCase
        and state = "two_todos\<lparr>searchQuery := str ''Tax''\<rparr>"]
    by blast
qed

text \<open>The example of the specification: the query \<open>Buy\<close> finds the title \<open>buy milk\<close>.\<close>

lemma filteredTodos_Buy_matches_buy_milk:
  "filteredTodos ascii_toLowerCase
     \<lparr> todos = [buy_milk\<lparr>text' := str ''buy milk''\<rparr>, call_bob], searchQuery = str ''Buy'' \<rparr>
   = [buy_milk\<lparr>text' := str ''buy milk''\<rparr>]"
  by (simp add: filteredTodos_def buy_milk_def call_bob_def str_def ascii_toLowerCase_def)

section \<open>Display numbers\<close>

lemma load_after_save:
  assumes "reads_back J" and "window_defined env" and "\<not> getItem_throws env"
    and "\<not> setItem_throws env"
  shows "loadFromLocalStorage J (saveToLocalStorage J ts env) = of_todos ts"
  using assms
  by (simp add: reads_back_def loadFromLocalStorage_def saveToLocalStorage_def getItem_def
      setItem_def truthy_def)

lemma scenario_adds_state: "fst scenario_adds = two_todos"
  by (simp add: scenario_adds_def two_todos_def buy_milk_def call_bob_def initialState_def
      Let_def)

lemma scenario_adds_storage:
  "snd scenario_adds = saveToLocalStorage example_JSON (todos two_todos) fresh_storage"
  by (simp add: scenario_adds_def two_todos_def buy_milk_def call_bob_def initialState_def
      Let_def saveToLocalStorage_def setItem_def fresh_storage_def)

text \<open>
  Claim C1 says that after every add, delete and load each \<open>todoNo\<close> is the 1-based
  position of its item. In \<^verbatim>\<open>src/store/todoSlice.ts\<close> only \<open>addTodo\<close> assigns
  a number (the length plus one); \<open>deleteTodo\<close> and \<open>initializeTodos\<close> assign none.
  In the scenario of the specification, deleting the first of the two items leaves the
  other with number 2 at position 1, loading it back keeps the 2, and the next add
  creates a second item with number 2.
\<close>

theorem deleteTodo_leaves_gap_then_duplicate:
  "map todoNo (todos (fst (deleteTodo example_JSON (str ''a1'') scenario_adds))) = [2]
   \<and> \<not> numbered (todos (fst (deleteTodo example_JSON (str ''a1'') scenario_adds)))
   \<and> initializeTodos example_JSON (deleteTodo example_JSON (str ''a1'') scenario_adds)
       = Done (deleteTodo example_JSON (str ''a1'') scenario_adds)
   \<and> map todoNo (todos (fst (addTodo example_JSON (str ''c3'') (str ''Pay rent'') []
        (deleteTodo example_JSON (str ''a1'') scenario_adds)))) = [2, 2]"
proof -
  have w: "scenario_adds = (two_todos, saveToLocalStorage example_JSON (todos two_todos) fresh_storage)"
    using scenario_adds_state scenario_adds_storage by (simp add: prod_eq_iff)
  have del: "todos (fst (deleteTodo example_JSON (str ''a1'') scenario_adds)) = [call_bob]"
    by (simp add: w Let_def two_todos_def buy_milk_def call_bob_def str_def)
  have flags: "window_defined (saveToLocalStorage example_JSON ts fresh_storage)
      \<and> \<not> getItem_throws (saveToLocalStorage example_JSON ts fresh_storage)
      \<and> \<not> setItem_throws (saveToLocalStorage example_JSON ts fresh_storage)" for ts
    by (simp add: saveToLocalStorage_def setItem_def fresh_storage_def)
  have "loadFromLocalStorage example_JSON (snd (deleteTodo example_JSON (str ''a1'') scenario_adds))
      = of_todos (filter (\<lambda>todo. id' todo \<noteq> str ''a1'') (todos two_todos))"
    using flags load_after_save [OF example_JSON_reads_back]
    by (simp add: w Let_def)
  also have "\<dots> = of_todos (todos (fst (deleteTodo example_JSON (str ''a1'') scenario_adds)))"
    by (simp add: w Let_def)
  finally have init: "initializeTodos example_JSON
        (deleteTodo example_JSON (str ''a1'') scenario_adds)
      = Done (deleteTodo example_JSON (str ''a1'') scenario_adds)"
    by (cases "deleteTodo example_JSON (str ''a1'') scenario_adds") (simp add: Let_def)
  have add: "map todoNo (todos (fst (addTodo example_JSON (str ''c3'') (str ''Pay rent'') []
        (deleteTodo example_JSON (str ''a1'') scenario_adds)))) = [2, 2]"
    using del
    by (cases "deleteTodo example_JSON (str ''a1'') scenario_adds")
      (simp add: Let_def call_bob_def)
  show ?thesis
    using del init add by (simp add: numbered_def call_bob_def)
qed

subsection \<open>The copy that renumbers\<close>

lemma length_renumber [simp]: "length (renumber ts) = length ts"
  by (simp add: renumber_def)

lemma renumber_nth:
  "k < length ts \<Longrightarrow> renumber ts ! k = (ts ! k)\<lparr>todoNo := int k + 1\<rparr>"
  by (simp add: renumber_def nth_enumerate_eq)

lemma map_todoNo_renumber: "map todoNo (renumber ts) = map (\<lambda>k. int k + 1) [0..<length ts]"
  by (rule nth_equalityI) (simp_all add: renumber_nth)

lemma numbered_renumber: "numbered (renumber ts)"
  by (simp add: numbered_def map_todoNo_renumber)

lemma map_id_renumber [simp]: "map id' (renumber ts) = map id' ts"
  by (rule nth_equalityI) (simp_all add: renumber_nth)

lemma numbered_nth: "numbered ts \<Longrightarrow> k < length ts \<Longrightarrow> todoNo (ts ! k) = int k + 1"
proof -
  assume n: "numbered ts" and k: "k < length ts"
  have "todoNo (ts ! k) = map todoNo ts ! k"
    using k by simp
  also have "\<dots> = map (\<lambda>k. int k + 1) [0..<length ts] ! k"
    using n by (simp add: numbered_def)
  also have "\<dots> = int k + 1"
    using k by simp
  finally show ?thesis .
qed

lemma renumber_numbered_id: "numbered ts \<Longrightarrow> renumber ts = ts"
  by (rule nth_equalityI) (simp_all add: renumber_nth numbered_nth)

lemma numbered_iff_positions:
  "numbered ts \<longleftrightarrow> (\<forall>k < length ts. todoNo (ts ! k) = int k + 1)"
proof
  assume "numbered ts"
  then show "\<forall>k < length ts. todoNo (ts ! k) = int k + 1"
    by (simp add: numbered_nth)
next
  assume "\<forall>k < length ts. todoNo (ts ! k) = int k + 1"
  then show "numbered ts"
    unfolding numbered_def by (intro nth_equalityI) simp_all
qed

lemma numbered_mutate_found:
  "(\<And>t. todoNo (f t) = todoNo t) \<Longrightarrow> numbered ts \<Longrightarrow> numbered (mutate_found P f ts)"
  by (simp add: numbered_def map_todoNo_mutate_found)

text \<open>
  In \<^verbatim>\<open>src/unnamed/part_000\<close> the claim holds from every state: load, add and delete
  end with the renumbering loop, and the other reducers leave the numbers alone.
\<close>

lemma part_000_numbering:
  "(\<forall>w'. initializeTodos_p0 J (state, env) = Done w' \<longrightarrow> numbered (todos (fst w')))
   \<and> numbered (todos (fst (addTodo_p0 J now tx descr (state, env))))
   \<and> numbered (todos (fst (deleteTodo_p0 J i (state, env))))
   \<and> (numbered (todos state) \<longrightarrow>
        numbered (todos (fst (toggleTodo J i (state, env))))
        \<and> numbered (todos (fst (updateTodoText J i tx descr (state, env))))
        \<and> numbered (todos (fst (setSearchQuery q (state, env)))))"
proof -
  have "\<forall>w'. initializeTodos_p0 J (state, env) = Done w' \<longrightarrow> numbered (todos (fst w'))"
    using initializeTodos_p0_numbered by blast
  then show ?thesis
    by (simp add: Let_def numbered_renumber numbered_mutate_found split: option.splits)
qed

lemma part_000_numbering_reachable:
  "numbered (todos (fst w)) \<Longrightarrow> dispatch_all_p0 J acts w = Done w'
     \<Longrightarrow> numbered (todos (fst w'))"
proof (induction acts arbitrary: w)
  case Nil
  then show ?case by simp
next
  case (Cons a acts)
  obtain state env where w: "w = (state, env)"
    by (cases w)
  from Cons.prems(2) obtain w1 where step: "reducer_p0 J a w = Done w1"
    and rest: "dispatch_all_p0 J acts w1 = Done w'"
    by (auto split: outcome.splits)
  have "numbered (todos (fst w1))"
    using Cons.prems(1) step part_000_numbering [of J state env _ _ _ _ _]
    by (cases a) (auto simp: w)
  then show ?case
    using rest by (rule Cons.IH)
qed

text \<open>What holds in \<^verbatim>\<open>src/store/todoSlice.ts\<close>: an add keeps a numbered list numbered.\<close>

lemma addTodo_keeps_numbered:
  "numbered (todos state) \<Longrightarrow> numbered (todos (fst (addTodo J nanoid tx descr (state, env))))"
  by (simp add: numbered_def Let_def)

section \<open>Identifiers\<close>





section \<open>Writing through\<close>

lemma written_through_save:
  "window_defined env \<Longrightarrow> \<not> setItem_throws env
     \<Longrightarrow> written_through J (state\<lparr>todos := ts\<rparr>, saveToLocalStorage J ts env)"
  by (simp add: written_through_def saveToLocalStorage_def setItem_def)

text \<open>
  Claim C5 says that after every add, toggle, delete and update the value stored under
  the key is the serialisation of the items in memory. A toggle or an update whose id
  matches no item returns before it saves: in a fresh browser, where nothing is stored
  yet, toggling an unknown id leaves the key absent, while the items in memory are the
  empty list.
\<close>

theorem unmatched_toggle_writes_nothing_counterexample:
  "\<not> written_through example_JSON
       (toggleTodo example_JSON (str ''zz'') (initialState, fresh_storage))"
  by (simp add: written_through_def initialState_def fresh_storage_def)

text \<open>
  Claim C5 as amended. With a storage whose writes succeed: after every add and every
  delete (in both copies of the slice), and after every toggle and update whose id
  matches an item, the value stored under the key is the serialisation of the items in
  memory. A toggle or update whose id matches no item changes neither the items nor the
  storage.
\<close>

theorem mutations_are_written_through:
  assumes "window_defined env" and "\<not> setItem_throws env"
  shows "written_through J (addTodo J nanoid tx descr (state, env))
     \<and> written_through J (addTodo_p0 J now tx descr (state, env))
     \<and> written_through J (deleteTodo J i (state, env))
     \<and> written_through J (deleteTodo_p0 J i (state, env))
     \<and> (i \<in> id' ` set (todos state) \<longrightarrow>
          written_through J (toggleTodo J i (state, env))
          \<and> written_through J (updateTodoText J i tx descr (state, env)))
     \<and> (i \<notin> id' ` set (todos state) \<longrightarrow>
          toggleTodo J i (state, env) = (state, env)
          \<and> updateTodoText J i tx descr (state, env) = (state, env))"
proof (intro conjI impI)
  show "written_through J (addTodo J nanoid tx descr (state, env))"
    using assms by (simp add: Let_def written_through_save)
  show "written_through J (addTodo_p0 J now tx descr (state, env))"
    using assms by (simp add: Let_def written_through_save)
  show "written_through J (deleteTodo J i (state, env))"
    using assms by (simp add: Let_def written_through_save)
  show "written_through J (deleteTodo_p0 J i (state, env))"
    using assms by (simp add: Let_def written_through_save)
next
  assume "i \<in> id' ` set (todos state)"
  then have found: "find (\<lambda>todo. id' todo = i) (todos state) \<noteq> None"
    by (simp add: find_id_None)
  then show "written_through J (toggleTodo J i (state, env))"
    using assms by (auto simp: Let_def written_through_save)
  from found show "written_through J (updateTodoText J i tx descr (state, env))"
    using assms by (auto simp: Let_def written_through_save)
next
  assume "i \<notin> id' ` set (todos state)"
  then have none: "find (\<lambda>todo. id' todo = i) (todos state) = None"
    by (simp add: find_id_None)
  then show "toggleTodo J i (state, env) = (state, env)"
    by simp
  from none show "updateTodoText J i tx descr (state, env) = (state, env)"
    by simp
qed

text \<open>The theorem at the scenario's two items, with the second id and with an unknown id.\<close>

theorem mutations_are_written_through_witness:
  "window_defined fresh_storage \<and> \<not> setItem_throws fresh_storage
   \<and> str ''b2'' \<in> id' ` set (todos two_todos)
   \<and> written_through example_JSON (toggleTodo example_JSON (str ''b2'') (two_todos, fresh_storage))
   \<and> written_through example_JSON (addTodo example_JSON (str ''c3'') (str ''Pay rent'') []
        (two_todos, fresh_storage))
   \<and> str ''zz'' \<notin> id' ` set (todos two_todos)
   \<and> toggleTodo example_JSON (str ''zz'') (two_todos, fresh_storage) = (two_todos, fresh_storage)"
proof -
  have w: "window_defined fresh_storage" and s: "\<not> setItem_throws fresh_storage"
    by (simp_all add: fresh_storage_def)
  have present: "str ''b2'' \<in> id' ` set (todos two_todos)"
    by (simp add: two_todos_def buy_milk_def call_bob_def str_def)
  have absent: "str ''zz'' \<notin> id' ` set (todos two_todos)"
    by (simp add: two_todos_def buy_milk_def call_bob_def str_def)
  show ?thesis
    using w s present absent
      mutations_are_written_through [OF w s, where i = "str ''b2''" and state = two_todos
        and J = example_JSON and nanoid = "str ''c3''" and tx = "str ''Pay rent''"
        and descr = "[]"]
      mutations_are_written_through [OF w s, where i = "str ''zz''" and state = two_todos
        and J = example_JSON]
    by blast
qed

section \<open>Loading back\<close>

lemma save_flags [simp]:
  "window_defined (saveToLocalStorage J ts env) = window_defined env"
  "getItem_throws (saveToLocalStorage J ts env) = getItem_throws env"
  "setItem_throws (saveToLocalStorage J ts env) = setItem_throws env"
  by (simp_all add: saveToLocalStorage_def setItem_def)










text \<open>
  The scenario itself in \<^verbatim>\<open>src/store/todoSlice.ts\<close>: what is in memory at its end
  is the second item, completed, with the number 2 it was created with.
\<close>

lemma scenario_in_memory:
  "\<exists>env. dispatch_all example_JSON
          [InitializeTodos,
           AddTodo (str ''a1'') (str ''Buy milk'') [],
           AddTodo (str ''b2'') (str ''Call Bob'') (str ''re: project''),
           DeleteTodo (str ''a1''), ToggleTodo (str ''b2'')]
          (initialState, fresh_storage)
     = Done (\<lparr> todos = [call_bob\<lparr>completed := True\<rparr>], searchQuery = [] \<rparr>, env)"
  by (simp add: Let_def initialState_def loadFromLocalStorage_def getItem_def
      fresh_storage_def call_bob_def str_def)

subsection \<open>The copy that renumbers\<close>

text \<open>
  In \<^verbatim>\<open>src/unnamed/part_000\<close> the text \<^verbatim>\<open>null\<close> under the key makes the reducer
  throw: \<^verbatim>\<open>forEach\<close> is called on null, outside the \<^verbatim>\<open>try\<close>.
\<close>

lemma part_000_stored_null_throws:
  "initializeTodos_p0 example_JSON (initialState, null_storage) = Throws TypeError"
  by (simp add: null_storage_def loadFromLocalStorage_def getItem_def fresh_storage_def
      truthy_def example_JSON_def str_def)

text \<open>
  When its load succeeds, it renumbers what it read. What that copy wrote is numbered
  already, so there too a load after any sequence of actions changes nothing.
\<close>

lemma renumber_idem [simp]: "renumber (renumber ts) = renumber ts"
  by (simp add: renumber_numbered_id numbered_renumber)

lemma in_sync_p0_numbered: "in_sync_p0 J w \<Longrightarrow> numbered (todos (fst w))"
  using initializeTodos_p0_numbered [of J "fst w" "snd w" w] by (simp add: in_sync_p0_def)

lemma in_sync_p0_save:
  assumes "reads_back J" and "window_defined env" and "\<not> getItem_throws env"
    and "\<not> setItem_throws env" and "numbered ts"
  shows "in_sync_p0 J (state\<lparr>todos := ts\<rparr>, saveToLocalStorage J ts env)"
proof -
  have "as_todos (loadFromLocalStorage J (saveToLocalStorage J ts env)) = Some ts"
    using assms(1-4) by (simp add: load_after_save)
  then have "initializeTodos_p0 J (state\<lparr>todos := ts\<rparr>, saveToLocalStorage J ts env)
      = Done (state\<lparr>todos := ts, todos := renumber ts\<rparr>, saveToLocalStorage J ts env)"
    by (rule initializeTodos_p0_typed)
  then show ?thesis
    using assms(2-5) by (simp add: in_sync_p0_def renumber_numbered_id)
qed

lemma initializeTodos_p0_state:
  "initializeTodos_p0 J (state, env) = Done w'
     \<Longrightarrow> initializeTodos_p0 J (state', env) = Done (state'\<lparr>todos := todos (fst w')\<rparr>, env)"
  by (auto split: jsvalue.splits sum.splits option.splits)

lemma in_sync_p0_initializeTodos:
  assumes "window_defined env" and "\<not> getItem_throws env" and "\<not> setItem_throws env"
    and "initializeTodos_p0 J (state, env) = Done w'"
  shows "in_sync_p0 J w'"
proof -
  have w': "w' = (state\<lparr>todos := todos (fst w')\<rparr>, env)"
    using initializeTodos_p0_state [OF assms(4), of state] assms(4) by simp
  have "initializeTodos_p0 J (state\<lparr>todos := todos (fst w')\<rparr>, env)
      = Done (state\<lparr>todos := todos (fst w'), todos := todos (fst w')\<rparr>, env)"
    using assms(4) by (rule initializeTodos_p0_state)
  then have "initializeTodos_p0 J w' = Done w'"
    using w' by simp
  then show ?thesis
    using assms(1-3) w' by (simp add: in_sync_p0_def) (metis snd_conv)
qed

lemma in_sync_p0_reducer:
  assumes "reads_back J" and "in_sync_p0 J w"
  shows "\<exists>w'. reducer_p0 J a w = Done w' \<and> in_sync_p0 J w'"
proof -
  obtain state env where w: "w = (state, env)"
    by (cases w)
  have flags: "window_defined env" "\<not> getItem_throws env" "\<not> setItem_throws env"
    using assms(2) by (simp_all add: in_sync_p0_def w)
  have n: "numbered (todos state)"
    using in_sync_p0_numbered [OF assms(2)] by (simp add: w)
  note save = in_sync_p0_save [OF assms(1) flags]
  show ?thesis
  proof (cases a)
    case InitializeTodos
    then show ?thesis
      using assms(2) by (simp add: in_sync_p0_def)
  next
    case (AddTodo now tx descr)
    then show ?thesis
      using save by (simp add: w Let_def numbered_renumber)
  next
    case (ToggleTodo i)
    then show ?thesis
      using save assms(2) n
      by (simp add: w Let_def numbered_mutate_found split: option.splits)
  next
    case (DeleteTodo i)
    then show ?thesis
      using save by (simp add: w Let_def numbered_renumber)
  next
    case (UpdateTodoText i tx descr)
    then show ?thesis
      using save assms(2) n
      by (simp add: w Let_def numbered_mutate_found split: option.splits)
  next
    case (SetSearchQuery q)
    have "initializeTodos_p0 J (state\<lparr>searchQuery := q\<rparr>, env)
        = Done (state\<lparr>searchQuery := q\<rparr>, env)"
      using assms(2) initializeTodos_p0_state [of J state env "(state, env)" "state\<lparr>searchQuery := q\<rparr>"]
      by (simp add: in_sync_p0_def w)
    then show ?thesis
      using SetSearchQuery flags by (simp add: w in_sync_p0_def)
  qed
qed

lemma in_sync_p0_dispatch_all:
  "reads_back J \<Longrightarrow> in_sync_p0 J w
     \<Longrightarrow> \<exists>w'. dispatch_all_p0 J acts w = Done w' \<and> in_sync_p0 J w'"
proof (induction acts arbitrary: w)
  case Nil
  then show ?case by simp
next
  case (Cons a acts)
  from in_sync_p0_reducer [OF Cons.prems] obtain w1 where step: "reducer_p0 J a w = Done w1"
    and sync: "in_sync_p0 J w1"
    by blast
  from Cons.IH [OF Cons.prems(1) sync] show ?case
    by (simp add: step)
qed

lemma part_000_round_trip:
  assumes "reads_back J" and "window_defined env" and "\<not> getItem_throws env"
    and "\<not> setItem_throws env" and "initializeTodos_p0 J (state, env) = Done w0"
  shows "\<exists>w. dispatch_all_p0 J acts w0 = Done w \<and> initializeTodos_p0 J w = Done w"
proof -
  have "in_sync_p0 J w0"
    using assms(2-5) by (rule in_sync_p0_initializeTodos)
  then obtain w where "dispatch_all_p0 J acts w0 = Done w" and "in_sync_p0 J w"
    using in_sync_p0_dispatch_all [OF assms(1)] by blast
  then show ?thesis
    by (auto simp: in_sync_p0_def)
qed

text \<open>Deleting is idempotent in that copy as well.\<close>

lemma ids_renumber: "id' ` set (renumber ts) = id' ` set ts"
  using arg_cong [OF map_id_renumber [of ts], of set] by (simp only: set_map)

lemma part_000_delete_idempotent:
  "deleteTodo_p0 J i (deleteTodo_p0 J i (state, env)) = deleteTodo_p0 J i (state, env)"
proof -
  let ?ts = "renumber (filter (\<lambda>todo. id' todo \<noteq> i) (todos state))"
  have "i \<notin> id' ` set ?ts"
    unfolding ids_renumber by auto
  then have "\<forall>t \<in> set ?ts. id' t \<noteq> i"
    by blast
  then have keep: "filter (\<lambda>todo. id' todo \<noteq> i) ?ts = ?ts"
    by (simp only: filter_id_conv)
  show ?thesis
    by (simp add: Let_def keep saveToLocalStorage_def setItem_def)
qed

end
